theory Spec2Isabelle
  imports Main
begin

section \<open>Python values, dictionaries and exceptions\<close>

text \<open>
  The values that travel through \<^verbatim>\<open>main.py\<close>: JSON scalars of a request body, the
  keyword arguments of the pydantic models, and the fields of a stored document (whose
  \<^verbatim>\<open>_id\<close> is an object id). Floats and nested lists or objects are left out: no field of
  the comment models has such a type.
\<close>

datatype val = VNone | VBool bool | VInt int | VStr string | VObjectId string

text \<open>A dict is an insertion-ordered list of pairs, read through \<^const>\<open>map_of\<close>.\<close>

type_synonym dict = "(string \<times> val) list"

text \<open>\<^verbatim>\<open>d.get(k, default)\<close>; \<^verbatim>\<open>d.get(k)\<close> is the instance with default \<^verbatim>\<open>None\<close>.\<close>

definition dict_get :: "dict \<Rightarrow> string \<Rightarrow> val \<Rightarrow> val" where
  "dict_get d k dflt = (case map_of d k of None \<Rightarrow> dflt | Some v \<Rightarrow> v)"

text \<open>
  An exception carries the text that \<^verbatim>\<open>str(e)\<close> gives. A pydantic validation error is
  kept apart from every other fault (store, transport). It records the offending field;
  the text given for it below stands in for pydantic's own wording, which the sources do
  not fix, and no statement of a property depends on it.
\<close>

datatype exn = ValidationError string | Fault string

fun str_exn :: "exn \<Rightarrow> string" where
  "str_exn (ValidationError f) = ''validation error: '' @ f"
| "str_exn (Fault m) = m"

text \<open>Sequencing of two steps of which the first may raise.\<close>

definition and_then :: "exn + 'a \<Rightarrow> ('a \<Rightarrow> exn + 'b) \<Rightarrow> exn + 'b" where
  "and_then r f = (case r of Inl e \<Rightarrow> Inl e | Inr a \<Rightarrow> f a)"

subsection \<open>Python's \<^verbatim>\<open>str\<close>\<close>

definition digit_char :: "nat \<Rightarrow> char" where
  "digit_char n = ''0123456789'' ! n"

function str_nat :: "nat \<Rightarrow> string" where
  "str_nat n = (if n < 10 then [digit_char n] else str_nat (n div 10) @ [digit_char (n mod 10)])"
  by pat_completeness auto
termination
  by (relation "measure (\<lambda>n. n)") auto

definition str_int :: "int \<Rightarrow> string" where
  "str_int i = (if i < 0 then CHR ''-'' # str_nat (nat (- i)) else str_nat (nat i))"

fun py_str :: "val \<Rightarrow> string" where
  "py_str VNone = ''None''"
| "py_str (VBool b) = (if b then ''True'' else ''False'')"
| "py_str (VInt i) = str_int i"
| "py_str (VStr s) = s"
| "py_str (VObjectId h) = h"

section \<open>The pydantic models of \<^verbatim>\<open>main.py\<close>\<close>

text \<open>
  \<^verbatim>\<open>class CommentIn(BaseModel)\<close>: \<^verbatim>\<open>name: str\<close>, \<^verbatim>\<open>message: str\<close>,
  \<^verbatim>\<open>attending: Optional[bool] = None\<close>, \<^verbatim>\<open>guests: Optional[int] = 1\<close>,
  \<^verbatim>\<open>phone: Optional[str] = None\<close>; \<^verbatim>\<open>class CommentOut(CommentIn)\<close> adds
  \<^verbatim>\<open>id: Optional[str] = None\<close> (the field is called \<open>comment_id\<close> here, \<open>id\<close> being
  the identity function of HOL).
\<close>

record CommentIn =
  name :: string
  message :: string
  attending :: "bool option"
  guests :: "int option"
  phone :: "string option"

record CommentOut = CommentIn +
  comment_id :: "string option"

text \<open>
  Validation of one field. The first argument is the field's name, for the error. A
  required \<^verbatim>\<open>str\<close> field takes a string and nothing else. An \<^verbatim>\<open>Optional\<close> field takes its
  default when the key is absent, \<^verbatim>\<open>None\<close> when the value is \<^verbatim>\<open>None\<close>/\<^verbatim>\<open>null\<close>, and a value
  of its type. The conversions that pydantic's lax mode adds for the optional fields (the
  string \<^verbatim>\<open>"2"\<close> read as the integer 2) are not modelled: here such a value is rejected,
  and every statement below about accepted input is about values of the declared types.
\<close>

fun str_field :: "string \<Rightarrow> val option \<Rightarrow> exn + string" where
  "str_field f (Some (VStr s)) = Inr s"
| "str_field f _ = Inl (ValidationError f)"

fun optional_bool :: "string \<Rightarrow> bool option \<Rightarrow> val option \<Rightarrow> exn + bool option" where
  "optional_bool f dflt None = Inr dflt"
| "optional_bool f dflt (Some VNone) = Inr None"
| "optional_bool f dflt (Some (VBool b)) = Inr (Some b)"
| "optional_bool f dflt (Some _) = Inl (ValidationError f)"

fun optional_int :: "string \<Rightarrow> int option \<Rightarrow> val option \<Rightarrow> exn + int option" where
  "optional_int f dflt None = Inr dflt"
| "optional_int f dflt (Some VNone) = Inr None"
| "optional_int f dflt (Some (VInt i)) = Inr (Some i)"
| "optional_int f dflt (Some _) = Inl (ValidationError f)"

fun optional_str :: "string \<Rightarrow> string option \<Rightarrow> val option \<Rightarrow> exn + string option" where
  "optional_str f dflt None = Inr dflt"
| "optional_str f dflt (Some VNone) = Inr None"
| "optional_str f dflt (Some (VStr s)) = Inr (Some s)"
| "optional_str f dflt (Some _) = Inl (ValidationError f)"

text \<open>\<^verbatim>\<open>CommentIn(**d)\<close>, also the parsing of a request body into a \<^verbatim>\<open>CommentIn\<close>.\<close>

definition CommentIn_init :: "dict \<Rightarrow> exn + CommentIn" where
  "CommentIn_init d =
     and_then (str_field ''name'' (map_of d ''name'')) (\<lambda>n.
     and_then (str_field ''message'' (map_of d ''message'')) (\<lambda>m.
     and_then (optional_bool ''attending'' None (map_of d ''attending'')) (\<lambda>a.
     and_then (optional_int ''guests'' (Some 1) (map_of d ''guests'')) (\<lambda>g.
     and_then (optional_str ''phone'' None (map_of d ''phone'')) (\<lambda>p.
       Inr \<lparr>name = n, message = m, attending = a, guests = g, phone = p\<rparr>)))))"

text \<open>\<^verbatim>\<open>CommentOut(**d)\<close>: the fields of \<^verbatim>\<open>CommentIn\<close> and the optional \<^verbatim>\<open>id\<close>.\<close>

definition CommentOut_init :: "dict \<Rightarrow> exn + CommentOut" where
  "CommentOut_init d =
     and_then (CommentIn_init d) (\<lambda>c.
     and_then (optional_str ''id'' None (map_of d ''id'')) (\<lambda>i.
       Inr \<lparr>name = name c, message = message c, attending = attending c,
            guests = guests c, phone = phone c, comment_id = i\<rparr>))"

definition opt_val :: "('a \<Rightarrow> val) \<Rightarrow> 'a option \<Rightarrow> val" where
  "opt_val f x = (case x of None \<Rightarrow> VNone | Some a \<Rightarrow> f a)"

text \<open>\<^verbatim>\<open>model_dump()\<close> of a comment: its five fields, in declaration order.\<close>

definition model_dump :: "CommentIn \<Rightarrow> dict" where
  "model_dump c =
     [(''name'', VStr (name c)), (''message'', VStr (message c)),
      (''attending'', opt_val VBool (attending c)), (''guests'', opt_val VInt (guests c)),
      (''phone'', opt_val VStr (phone c))]"

text \<open>
  Modelled from the spec: the domain schema \<^verbatim>\<open>schemas.Comment\<close> (imported as
  \<^verbatim>\<open>CommentSchema\<close>) is not among the sources. The specification gives its contract:
  from an untyped record it produces a normalized Comment with \<^verbatim>\<open>guests\<close> defaulted to 1
  if absent and \<^verbatim>\<open>attending\<close>/\<^verbatim>\<open>phone\<close> defaulted to absent, it rejects with a validation
  error a \<^verbatim>\<open>name\<close> or \<^verbatim>\<open>message\<close> that is missing or not a string, and it accepts the same
  normalized shape as the transport schema \<^verbatim>\<open>CommentIn\<close>. These are the only rejections
  the specification names, and the only ones modelled. The data model calls \<^verbatim>\<open>name\<close> a
  non-empty string; whether the schema rejects an empty one the specification does not
  say, so nothing is concluded here about what happens to an empty \<^verbatim>\<open>name\<close> or
  \<^verbatim>\<open>message\<close> beyond the transport schema.
\<close>

type_synonym CommentSchema = CommentIn

definition CommentSchema_init :: "dict \<Rightarrow> exn + CommentSchema" where
  "CommentSchema_init d =
     and_then (str_field ''name'' (map_of d ''name'')) (\<lambda>n.
     and_then (str_field ''message'' (map_of d ''message'')) (\<lambda>m.
     and_then (optional_bool ''attending'' None (map_of d ''attending'')) (\<lambda>a.
     and_then (optional_int ''guests'' (Some 1) (map_of d ''guests'')) (\<lambda>g.
     and_then (optional_str ''phone'' None (map_of d ''phone'')) (\<lambda>p.
       Inr \<lparr>name = n, message = m, attending = a, guests = g, phone = p\<rparr>)))))"

section \<open>The outside world\<close>

text \<open>
  What the handlers call and do not define: the process environment, the HTTP client
  and the two operations of the document store (module \<^verbatim>\<open>database\<close>, not among the
  sources). They are parameters of the model; \<open>'db\<close> is the state of the store. An
  operation that raises returns \<open>Inl\<close>. Every call is recorded as an event, in order.
\<close>

record http_resp =
  status_code :: int
  resp_text :: string

record 'db env =
  getenv :: "string \<Rightarrow> string option"
  requests_post :: "string \<Rightarrow> dict \<Rightarrow> int \<Rightarrow> exn + http_resp"
  create_document :: "'db \<Rightarrow> string \<Rightarrow> CommentSchema \<Rightarrow> (exn + string) \<times> 'db"
  get_documents :: "'db \<Rightarrow> string \<Rightarrow> dict \<Rightarrow> int \<Rightarrow> exn + dict list"

datatype event =
    Getenv string
  | HttpPost string dict int
  | CreateDocument string CommentSchema
  | GetDocuments string dict int

datatype http_exception = HTTPException int string

section \<open>\<^verbatim>\<open>forward_to_google_sheet\<close>\<close>

text \<open>
  The body of the \<^verbatim>\<open>try\<close>: the POST, then the record built from the response. A fault of
  the POST leaves the block as an exception.
\<close>

definition forward_try :: "'db env \<Rightarrow> string \<Rightarrow> dict \<Rightarrow> exn + dict" where
  "forward_try E url payload =
     and_then (requests_post E url payload 8) (\<lambda>resp.
       let ok = (status_code resp = 200 \<or> status_code resp = 201) in
       Inr [(''forwarded'', VBool ok), (''status'', VInt (status_code resp)),
            (''response'', VStr (take 200 (resp_text resp)))])"

text \<open>
  \<^verbatim>\<open>if not url\<close> holds for an unset variable and for the empty string. The result is
  the returned record (or an exception that escapes) and the calls made.
\<close>

definition forward_to_google_sheet :: "'db env \<Rightarrow> dict \<Rightarrow> (exn + dict) \<times> event list" where
  "forward_to_google_sheet E payload =
     (let url = getenv E ''GOOGLE_APPS_SCRIPT_URL'' in
      if url = None \<or> url = Some [] then
        (Inr [(''forwarded'', VBool False),
              (''reason'', VStr ''No GOOGLE_APPS_SCRIPT_URL configured'')],
         [Getenv ''GOOGLE_APPS_SCRIPT_URL''])
      else
        (case forward_try E (the url) payload of
           Inr meta \<Rightarrow> Inr meta
         | Inl e \<Rightarrow> Inr [(''forwarded'', VBool False), (''reason'', VStr (take 200 (str_exn e)))],
         [Getenv ''GOOGLE_APPS_SCRIPT_URL'', HttpPost (the url) payload 8]))"

section \<open>\<^verbatim>\<open>create_comment\<close> and \<^verbatim>\<open>POST /api/comments\<close>\<close>

text \<open>
  The handler: the result (the returned \<^verbatim>\<open>CommentOut\<close> or the raised \<^verbatim>\<open>HTTPException\<close>),
  the store afterwards and the calls made. Each \<open>Inl\<close> branch is the \<^verbatim>\<open>except\<close> clause
  reached from that line of the \<^verbatim>\<open>try\<close>.
\<close>

definition create_comment ::
  "'db env \<Rightarrow> 'db \<Rightarrow> CommentIn \<Rightarrow> (http_exception + CommentOut) \<times> 'db \<times> event list" where
  "create_comment E db comment =
     (case CommentSchema_init (model_dump comment) of
        Inl e \<Rightarrow> (Inl (HTTPException 400 (str_exn e)), db, [])
      | Inr validated \<Rightarrow>
         (case create_document E db ''comment'' validated of
            (Inl e, db') \<Rightarrow>
              (Inl (HTTPException 400 (str_exn e)), db', [CreateDocument ''comment'' validated])
          | (Inr new_id, db') \<Rightarrow>
             (case forward_to_google_sheet E
                     [(''name'', VStr (name validated)),
                      (''message'', VStr (message validated)),
                      (''attending'', opt_val VBool (attending validated)),
                      (''guests'', opt_val VInt (guests validated)),
                      (''phone'', opt_val VStr (phone validated))] of
                (Inl e, evs) \<Rightarrow>
                  (Inl (HTTPException 400 (str_exn e)), db',
                   CreateDocument ''comment'' validated # evs)
              | (Inr sheet_meta, evs) \<Rightarrow>
                 (case CommentOut_init ((''id'', VStr new_id) # model_dump validated) of
                    Inl e \<Rightarrow>
                      (Inl (HTTPException 400 (str_exn e)), db',
                       CreateDocument ''comment'' validated # evs)
                  | Inr out \<Rightarrow>
                      (Inr out, db', CreateDocument ''comment'' validated # evs)))))"

text \<open>
  What the client receives. FastAPI, from the decorator and the signature
  \<^verbatim>\<open>create_comment(comment: CommentIn)\<close>: a body that does not validate as \<^verbatim>\<open>CommentIn\<close>
  is answered with status 422 and the handler is not called; a returned value is sent
  with status 200; a raised \<^verbatim>\<open>HTTPException\<close> is sent with its status and detail.
\<close>

datatype body = CommentBody CommentOut | CommentList "CommentOut list" | Detail string

record response =
  status :: int
  content :: body

definition post_api_comments :: "'db env \<Rightarrow> 'db \<Rightarrow> dict \<Rightarrow> response \<times> 'db \<times> event list" where
  "post_api_comments E db request_body =
     (case CommentIn_init request_body of
        Inl e \<Rightarrow> (\<lparr>status = 422, content = Detail (str_exn e)\<rparr>, db, [])
      | Inr comment \<Rightarrow>
         (case create_comment E db comment of
            (Inl (HTTPException code detail), db', evs) \<Rightarrow>
              (\<lparr>status = code, content = Detail detail\<rparr>, db', evs)
          | (Inr out, db', evs) \<Rightarrow>
              (\<lparr>status = 200, content = CommentBody out\<rparr>, db', evs)))"

section \<open>\<^verbatim>\<open>list_comments\<close> and \<^verbatim>\<open>GET /api/comments\<close>\<close>

text \<open>The \<^verbatim>\<open>CommentOut(...)\<close> built from one stored document \<open>d\<close>.\<close>

definition comment_of_doc :: "dict \<Rightarrow> exn + CommentOut" where
  "comment_of_doc d =
     CommentOut_init
       [(''id'', VStr (py_str (dict_get d ''_id'' VNone))),
        (''name'', dict_get d ''name'' (VStr '''')),
        (''message'', dict_get d ''message'' (VStr '''')),
        (''attending'', dict_get d ''attending'' VNone),
        (''guests'', dict_get d ''guests'' VNone),
        (''phone'', dict_get d ''phone'' VNone)]"

text \<open>The \<^verbatim>\<open>for\<close> loop: \<open>results\<close> grows at its end; an exception stops the loop.\<close>

fun append_comments :: "dict list \<Rightarrow> CommentOut list \<Rightarrow> exn + CommentOut list" where
  "append_comments [] results = Inr results"
| "append_comments (d # docs) results =
     (case comment_of_doc d of
        Inl e \<Rightarrow> Inl e
      | Inr c \<Rightarrow> append_comments docs (results @ [c]))"

definition list_comments ::
  "'db env \<Rightarrow> 'db \<Rightarrow> int \<Rightarrow> (http_exception + CommentOut list) \<times> event list" where
  "list_comments E db limit =
     (case and_then (get_documents E db ''comment'' [] limit) (\<lambda>docs. append_comments docs []) of
        Inl e \<Rightarrow> Inl (HTTPException 500 (str_exn e))
      | Inr results \<Rightarrow> Inr results,
      [GetDocuments ''comment'' [] limit])"

text \<open>
  The query parameter \<^verbatim>\<open>limit: int = 50\<close>: absent from the query, it is 50.
\<close>

definition get_api_comments :: "'db env \<Rightarrow> 'db \<Rightarrow> int option \<Rightarrow> response \<times> event list" where
  "get_api_comments E db limit =
     (case list_comments E db (case limit of None \<Rightarrow> 50 | Some n \<Rightarrow> n) of
        (Inl (HTTPException code detail), evs) \<Rightarrow> (\<lparr>status = code, content = Detail detail\<rparr>, evs)
      | (Inr results, evs) \<Rightarrow> (\<lparr>status = 200, content = CommentList results\<rparr>, evs))"

section \<open>A document store\<close>

text \<open>
  Modelled from the spec: the document store adapter (\<^verbatim>\<open>create_document\<close> and
  \<^verbatim>\<open>get_documents\<close> of module \<^verbatim>\<open>database\<close>) is not among the sources. The specification
  says: \<^verbatim>\<open>create_document(collection, record) -> id\<close>, the id being an opaque string
  identifier assigned by the store on creation; \<^verbatim>\<open>get_documents(collection, filter, limit)\<close>
  gives an ordered list of up to \<^verbatim>\<open>limit\<close> records; insertion order is preserved; any
  operation may fail (a store fault). Here the identifier is the decimal numeral of a
  counter, and a store whose \<open>fault\<close> is set raises on every operation.
\<close>

record store =
  fault :: "string option"
  documents :: "(string \<times> dict) list"
  counter :: nat

definition store_create_document :: "store \<Rightarrow> string \<Rightarrow> CommentSchema \<Rightarrow> (exn + string) \<times> store" where
  "store_create_document s coll r =
     (case fault s of
        Some m \<Rightarrow> (Inl (Fault m), s)
      | None \<Rightarrow>
          (let new_id = str_nat (counter s) in
           (Inr new_id,
            s\<lparr>documents := documents s @ [(coll, (''_id'', VObjectId new_id) # model_dump r)],
              counter := Suc (counter s)\<rparr>)))"

definition matches :: "dict \<Rightarrow> dict \<Rightarrow> bool" where
  "matches flt d = list_all (\<lambda>(k, v). map_of d k = Some v) flt"

definition store_get_documents :: "store \<Rightarrow> string \<Rightarrow> dict \<Rightarrow> int \<Rightarrow> exn + dict list" where
  "store_get_documents s coll flt limit =
     (case fault s of
        Some m \<Rightarrow> Inl (Fault m)
      | None \<Rightarrow>
          Inr (take (nat limit)
                 (map snd (filter (\<lambda>(c, d). c = coll \<and> matches flt d) (documents s)))))"

definition store_env ::
  "(string \<Rightarrow> string option) \<Rightarrow> (string \<Rightarrow> dict \<Rightarrow> int \<Rightarrow> exn + http_resp) \<Rightarrow> store env" where
  "store_env g p =
     \<lparr>getenv = g, requests_post = p,
      create_document = store_create_document, get_documents = store_get_documents\<rparr>"

definition empty_store :: store where
  "empty_store = \<lparr>fault = None, documents = [], counter = 0\<rparr>"

section \<open>The specification's vocabulary\<close>

text \<open>
  A valid Comment input, in the specification's words: \<^verbatim>\<open>name\<close> and \<^verbatim>\<open>message\<close> present
  as non-empty strings; \<^verbatim>\<open>attending\<close>, \<^verbatim>\<open>guests\<close> and \<^verbatim>\<open>phone\<close> omitted, null or of their
  type (boolean, integer, string).
\<close>

fun nonempty_str :: "val option \<Rightarrow> bool" where
  "nonempty_str (Some (VStr s)) = (s \<noteq> [])"
| "nonempty_str _ = False"

fun bool_or_absent :: "val option \<Rightarrow> bool" where
  "bool_or_absent None = True"
| "bool_or_absent (Some VNone) = True"
| "bool_or_absent (Some (VBool b)) = True"
| "bool_or_absent (Some _) = False"

fun int_or_absent :: "val option \<Rightarrow> bool" where
  "int_or_absent None = True"
| "int_or_absent (Some VNone) = True"
| "int_or_absent (Some (VInt i)) = True"
| "int_or_absent (Some _) = False"

fun str_or_absent :: "val option \<Rightarrow> bool" where
  "str_or_absent None = True"
| "str_or_absent (Some VNone) = True"
| "str_or_absent (Some (VStr s)) = True"
| "str_or_absent (Some _) = False"

definition valid_comment_input :: "dict \<Rightarrow> bool" where
  "valid_comment_input b \<longleftrightarrow>
     nonempty_str (map_of b ''name'') \<and> nonempty_str (map_of b ''message'') \<and>
     bool_or_absent (map_of b ''attending'') \<and> int_or_absent (map_of b ''guests'') \<and>
     str_or_absent (map_of b ''phone'')"

text \<open>
  The normalized Comment of an input, in the specification's words: the submitted
  fields, \<^verbatim>\<open>guests\<close> defaulted to 1 if absent, \<^verbatim>\<open>attending\<close> and \<^verbatim>\<open>phone\<close> defaulted to
  absent. It is what a valid input hands to the store.
\<close>

definition normalized :: "dict \<Rightarrow> CommentIn" where
  "normalized b =
     \<lparr>name = (case map_of b ''name'' of Some (VStr s) \<Rightarrow> s | _ \<Rightarrow> []),
      message = (case map_of b ''message'' of Some (VStr s) \<Rightarrow> s | _ \<Rightarrow> []),
      attending = (case map_of b ''attending'' of Some (VBool x) \<Rightarrow> Some x | _ \<Rightarrow> None),
      guests = (case map_of b ''guests'' of None \<Rightarrow> Some 1 | Some (VInt g) \<Rightarrow> Some g | _ \<Rightarrow> None),
      phone = (case map_of b ''phone'' of Some (VStr s) \<Rightarrow> Some s | _ \<Rightarrow> None)\<rparr>"

text \<open>
  A stored document whose comment fields, where present, have the types of the output
  shape: \<^verbatim>\<open>name\<close> and \<^verbatim>\<open>message\<close> strings, the other three null or of their type.
\<close>

fun str_if_present :: "val option \<Rightarrow> bool" where
  "str_if_present None = True"
| "str_if_present (Some (VStr s)) = True"
| "str_if_present (Some _) = False"

definition well_typed_doc :: "dict \<Rightarrow> bool" where
  "well_typed_doc d \<longleftrightarrow>
     str_if_present (map_of d ''name'') \<and> str_if_present (map_of d ''message'') \<and>
     bool_or_absent (map_of d ''attending'') \<and> int_or_absent (map_of d ''guests'') \<and>
     str_or_absent (map_of d ''phone'')"

section \<open>Example inputs\<close>

text \<open>
  An environment without a webhook URL and one with it; a webhook that cannot be
  reached and one that answers 201; the submission of the specification's scenario.
\<close>

definition no_url :: "string \<Rightarrow> string option" where
  "no_url k = None"

definition sheet_url :: "string \<Rightarrow> string option" where
  "sheet_url k =
     (if k = ''GOOGLE_APPS_SCRIPT_URL'' then Some ''https://script.example/exec'' else None)"

definition refused :: "string \<Rightarrow> dict \<Rightarrow> int \<Rightarrow> exn + http_resp" where
  "refused url payload timeout = Inl (Fault ''connection refused'')"

definition accepted :: "string \<Rightarrow> dict \<Rightarrow> int \<Rightarrow> exn + http_resp" where
  "accepted url payload timeout = Inr \<lparr>status_code = 201, resp_text = ''ok''\<rparr>"

definition alice :: dict where
  "alice = [(''name'', VStr ''Alice''), (''message'', VStr ''See you there!''),
            (''attending'', VBool True), (''guests'', VInt 2)]"

text \<open>A store that cannot be reached, and the body of the specification's failing scenario.\<close>

definition broken_store :: store where
  "broken_store = \<lparr>fault = Some ''database unavailable'', documents = [], counter = 0\<rparr>"

definition no_name :: dict where
  "no_name = [(''message'', VStr ''no name'')]"


text \<open>
  Two stored documents, the second with nothing but its \<^verbatim>\<open>_id\<close>, and the store that
  holds them; the store after the scenario's submission was posted once, and twice.
\<close>

definition stored_docs :: "dict list" where
  "stored_docs =
     [[(''_id'', VObjectId ''65f0a1''), (''name'', VStr ''Alice''), (''message'', VStr ''hi''),
       (''attending'', VBool True), (''guests'', VInt 2), (''phone'', VNone)],
      [(''_id'', VObjectId ''65f0a2'')]]"

definition filled_store :: store where
  "filled_store =
     \<lparr>fault = None, documents = map (Pair ''comment'') stored_docs, counter = 2\<rparr>"

definition alice_once :: store where
  "alice_once = \<lparr>fault = None,
        documents = [(''comment'', (''_id'', VObjectId ''0'') # model_dump (normalized alice))],
        counter = 1\<rparr>"

definition alice_twice :: store where
  "alice_twice = \<lparr>fault = None,
        documents = [(''comment'', (''_id'', VObjectId ''0'') # model_dump (normalized alice)),
                     (''comment'', (''_id'', VObjectId ''1'') # model_dump (normalized alice))],
        counter = 2\<rparr>"

section \<open>Basic facts\<close>

declare str_nat.simps [simp del]

lemma and_then_Inr [simp]: "and_then (Inr a) f = f a"
  by (simp add: and_then_def)

lemma and_then_Inl [simp]: "and_then (Inl e) f = Inl e"
  by (simp add: and_then_def)

lemma opt_val_simps [simp]:
  "opt_val f None = VNone" "opt_val f (Some a) = f a"
  by (simp_all add: opt_val_def)

text \<open>The domain schema accepts what the transport schema produced, unchanged.\<close>

lemma CommentSchema_init_model_dump: "CommentSchema_init (model_dump c) = Inr c"
  by (cases "attending c"; cases "guests c"; cases "phone c")
     (simp_all add: CommentSchema_init_def model_dump_def)

lemma CommentOut_init_with_id:
  "CommentOut_init ((''id'', VStr i) # model_dump c) =
     Inr \<lparr>name = name c, message = message c, attending = attending c,
          guests = guests c, phone = phone c, comment_id = Some i\<rparr>"
  by (cases "attending c"; cases "guests c"; cases "phone c")
     (simp_all add: CommentOut_init_def CommentIn_init_def model_dump_def)

text \<open>No exception leaves the forwarder.\<close>

lemma forward_returns: "\<exists>meta. fst (forward_to_google_sheet E payload) = Inr meta"
  by (simp add: forward_to_google_sheet_def Let_def split: sum.split)

text \<open>The two ways out of \<^const>\<open>create_comment\<close>, by what the store answers.\<close>

lemma create_comment_persisted:
  assumes "create_document E db ''comment'' c = (Inr i, db')"
  shows "create_comment E db c =
     (Inr \<lparr>name = name c, message = message c, attending = attending c,
          guests = guests c, phone = phone c, comment_id = Some i\<rparr>,
      db', CreateDocument ''comment'' c # snd (forward_to_google_sheet E (model_dump c)))"
proof -
  obtain meta evs where f: "forward_to_google_sheet E (model_dump c) = (Inr meta, evs)"
    using forward_returns [of E "model_dump c"]
    by (cases "forward_to_google_sheet E (model_dump c)") auto
  have p: "[(''name'', VStr (name c)), (''message'', VStr (message c)),
            (''attending'', opt_val VBool (attending c)), (''guests'', opt_val VInt (guests c)),
            (''phone'', opt_val VStr (phone c))] = model_dump c"
    by (simp add: model_dump_def)
  show ?thesis
    unfolding create_comment_def CommentSchema_init_model_dump
    by (simp add: assms p f CommentOut_init_with_id)
qed

lemma create_comment_store_fault:
  assumes "create_document E db ''comment'' c = (Inl e, db')"
  shows "create_comment E db c =
     (Inl (HTTPException 400 (str_exn e)), db', [CreateDocument ''comment'' c])"
  unfolding create_comment_def CommentSchema_init_model_dump
  by (simp add: assms)

text \<open>A valid input is accepted by the transport schema, as its normalized Comment.\<close>

lemma valid_input_accepted:
  assumes "valid_comment_input b"
  shows "CommentIn_init b = Inr (normalized b)"
proof -
  obtain n where n: "map_of b ''name'' = Some (VStr n)"
    using assms
    by (cases "map_of b ''name''" rule: nonempty_str.cases) (auto simp: valid_comment_input_def)
  obtain m where m: "map_of b ''message'' = Some (VStr m)"
    using assms
    by (cases "map_of b ''message''" rule: nonempty_str.cases) (auto simp: valid_comment_input_def)
  have a: "optional_bool ''attending'' None (map_of b ''attending'') =
           Inr (case map_of b ''attending'' of Some (VBool x) \<Rightarrow> Some x | _ \<Rightarrow> None)"
    using assms
    by (cases "map_of b ''attending''" rule: bool_or_absent.cases)
       (auto simp: valid_comment_input_def)
  have g: "optional_int ''guests'' (Some 1) (map_of b ''guests'') =
           Inr (case map_of b ''guests'' of None \<Rightarrow> Some 1 | Some (VInt g) \<Rightarrow> Some g | _ \<Rightarrow> None)"
    using assms
    by (cases "map_of b ''guests''" rule: int_or_absent.cases)
       (auto simp: valid_comment_input_def)
  have p: "optional_str ''phone'' None (map_of b ''phone'') =
           Inr (case map_of b ''phone'' of Some (VStr s) \<Rightarrow> Some s | _ \<Rightarrow> None)"
    using assms
    by (cases "map_of b ''phone''" rule: str_or_absent.cases)
       (auto simp: valid_comment_input_def)
  show ?thesis
    by (simp add: CommentIn_init_def normalized_def n m a g p)
qed


subsection \<open>The example inputs, evaluated\<close>

lemma str_nat_0: "str_nat 0 = ''0''"
  by (simp add: str_nat.simps [of 0] digit_char_def)

lemma alice_valid: "valid_comment_input alice"
  by (simp add: valid_comment_input_def alice_def)

lemma alice_normalized:
  "normalized alice = \<lparr>name = ''Alice'', message = ''See you there!'', attending = Some True,
      guests = Some 2, phone = None\<rparr>"
  by (simp add: normalized_def alice_def)

lemma alice_stored:
  "create_document (store_env g p) empty_store ''comment'' (normalized alice) =
     (Inr ''0'', \<lparr>fault = None,
        documents = [(''comment'', (''_id'', VObjectId ''0'') # model_dump (normalized alice))],
        counter = 1\<rparr>)"
  by (simp add: store_env_def store_create_document_def empty_store_def str_nat_0 Let_def)

lemma alice_accepted: "CommentIn_init alice = Inr (normalized alice)"
  by (rule valid_input_accepted [OF alice_valid])

lemma broken_get:
  "get_documents (store_env g p) broken_store coll flt limit = Inl (Fault ''database unavailable'')"
  by (simp add: store_env_def store_get_documents_def broken_store_def)

lemma broken_create:
  "create_document (store_env g p) broken_store coll r =
     (Inl (Fault ''database unavailable''), broken_store)"
  by (simp add: store_env_def store_create_document_def broken_store_def)

subsection \<open>Documents read back\<close>

text \<open>A field of the right type, or a missing one, passes the validation of its kind.\<close>

lemma str_present:
  assumes "str_if_present (map_of d k)"
  shows "\<exists>s. dict_get d k (VStr []) = VStr s"
  using assms by (cases "map_of d k" rule: str_if_present.cases) (auto simp: dict_get_def)

lemma bool_present:
  assumes "bool_or_absent (map_of d k)"
  shows "\<exists>a. optional_bool f dflt (Some (dict_get d k VNone)) = Inr a \<and>
             opt_val VBool a = dict_get d k VNone"
  using assms by (cases "map_of d k" rule: bool_or_absent.cases) (auto simp: dict_get_def)

lemma int_present:
  assumes "int_or_absent (map_of d k)"
  shows "\<exists>a. optional_int f dflt (Some (dict_get d k VNone)) = Inr a \<and>
             opt_val VInt a = dict_get d k VNone"
  using assms by (cases "map_of d k" rule: int_or_absent.cases) (auto simp: dict_get_def)

lemma str_opt_present:
  assumes "str_or_absent (map_of d k)"
  shows "\<exists>a. optional_str f dflt (Some (dict_get d k VNone)) = Inr a \<and>
             opt_val VStr a = dict_get d k VNone"
  using assms by (cases "map_of d k" rule: str_or_absent.cases) (auto simp: dict_get_def)

lemma comment_of_doc_well_typed:
  assumes "well_typed_doc d"
  shows "\<exists>c. comment_of_doc d = Inr c \<and>
           comment_id c = Some (py_str (dict_get d ''_id'' VNone)) \<and>
           VStr (name c) = dict_get d ''name'' (VStr '''') \<and>
           VStr (message c) = dict_get d ''message'' (VStr '''') \<and>
           opt_val VBool (attending c) = dict_get d ''attending'' VNone \<and>
           opt_val VInt (guests c) = dict_get d ''guests'' VNone \<and>
           opt_val VStr (phone c) = dict_get d ''phone'' VNone"
proof -
  obtain n where n: "dict_get d ''name'' (VStr []) = VStr n"
    using assms str_present [of d "''name''"] by (auto simp: well_typed_doc_def)
  obtain m where m: "dict_get d ''message'' (VStr []) = VStr m"
    using assms str_present [of d "''message''"] by (auto simp: well_typed_doc_def)
  obtain a where a: "optional_bool ''attending'' None (Some (dict_get d ''attending'' VNone)) = Inr a"
      "opt_val VBool a = dict_get d ''attending'' VNone"
    using assms bool_present [of d "''attending''"] by (auto simp: well_typed_doc_def)
  obtain g where g: "optional_int ''guests'' (Some 1) (Some (dict_get d ''guests'' VNone)) = Inr g"
      "opt_val VInt g = dict_get d ''guests'' VNone"
    using assms int_present [of d "''guests''"] by (auto simp: well_typed_doc_def)
  obtain p where p: "optional_str ''phone'' None (Some (dict_get d ''phone'' VNone)) = Inr p"
      "opt_val VStr p = dict_get d ''phone'' VNone"
    using assms str_opt_present [of d "''phone''"] by (auto simp: well_typed_doc_def)
  have "comment_of_doc d =
          Inr \<lparr>name = n, message = m, attending = a, guests = g, phone = p,
               comment_id = Some (py_str (dict_get d ''_id'' VNone))\<rparr>"
    by (simp add: comment_of_doc_def CommentOut_init_def CommentIn_init_def n m a(1) g(1) p(1))
  then show ?thesis
    using n m a(2) g(2) p(2) by simp
qed

text \<open>The loop keeps the order of the documents and stops at none of them.\<close>

lemma append_comments_well_typed:
  assumes "\<forall>d \<in> set docs. well_typed_doc d"
  shows "append_comments docs results = Inr (results @ map (projr \<circ> comment_of_doc) docs)"
  using assms
proof (induction docs arbitrary: results)
  case Nil
  then show ?case by simp
next
  case (Cons d docs)
  then obtain c where c: "comment_of_doc d = Inr c"
    using comment_of_doc_well_typed [of d] by auto
  with Cons show ?case by simp
qed

lemma stored_docs_well_typed: "\<forall>d \<in> set stored_docs. well_typed_doc d"
  by (simp add: stored_docs_def well_typed_doc_def)

lemma filled_store_get:
  "get_documents (store_env g p) filled_store ''comment'' [] 50 = Inr stored_docs"
  by (simp add: store_env_def store_get_documents_def filled_store_def stored_docs_def
        matches_def)

subsection \<open>Identifiers of the document store\<close>

text \<open>Decimal numerals are non-empty and determine their number, so new ids are new.\<close>

lemma digit_char_inj:
  assumes "a < 10" "b < 10" "digit_char a = digit_char b"
  shows "a = b"
proof -
  have "distinct ''0123456789''" by simp
  moreover have "a < length ''0123456789''" "b < length ''0123456789''"
    using assms by simp_all
  ultimately show ?thesis
    using assms(3) unfolding digit_char_def by (simp only: nth_eq_iff_index_eq)
qed

lemma str_nat_nonempty: "str_nat n \<noteq> []"
  by (subst str_nat.simps) simp

lemma str_nat_inj: "str_nat a = str_nat b \<Longrightarrow> a = b"
proof (induction a arbitrary: b rule: str_nat.induct)
  case (1 n)
  show ?case
  proof (cases "n < 10")
    case small: True
    show ?thesis
    proof (cases "b < 10")
      case True
      with small "1.prems" show ?thesis
        by (simp add: str_nat.simps [of n] str_nat.simps [of b] digit_char_inj)
    next
      case False
      with small "1.prems" show ?thesis
        using str_nat_nonempty [of "b div 10"]
        by (simp add: str_nat.simps [of n] str_nat.simps [of b])
    qed
  next
    case large: False
    show ?thesis
    proof (cases "b < 10")
      case True
      with large "1.prems" show ?thesis
        using str_nat_nonempty [of "n div 10"]
        by (simp add: str_nat.simps [of n] str_nat.simps [of b])
    next
      case False
      with large "1.prems" have eq: "str_nat (n div 10) = str_nat (b div 10)"
        and d: "digit_char (n mod 10) = digit_char (b mod 10)"
        by (simp_all add: str_nat.simps [of n] str_nat.simps [of b])
      from "1.IH" [OF large eq] have q: "n div 10 = b div 10" .
      from d have r: "n mod 10 = b mod 10"
        by (rule digit_char_inj [rotated 2]) simp_all
      from q r show ?thesis
        by (metis div_mult_mod_eq)
    qed
  qed
qed

text \<open>One accepted submission on a store without fault.\<close>

lemma store_create:
  assumes "fault s = None"
  shows "create_document (store_env g p) s ''comment'' c =
     (Inr (str_nat (counter s)),
      s\<lparr>documents := documents s @
           [(''comment'', (''_id'', VObjectId (str_nat (counter s))) # model_dump c)],
        counter := Suc (counter s)\<rparr>)"
  using assms by (simp add: store_env_def store_create_document_def Let_def)

lemma store_post:
  assumes "valid_comment_input b" and "fault s = None"
  shows "post_api_comments (store_env g p) s b =
     (\<lparr>status = 200, content = CommentBody
        \<lparr>name = name (normalized b), message = message (normalized b),
         attending = attending (normalized b), guests = guests (normalized b),
         phone = phone (normalized b), comment_id = Some (str_nat (counter s))\<rparr>\<rparr>,
      s\<lparr>documents := documents s @
           [(''comment'', (''_id'', VObjectId (str_nat (counter s))) # model_dump (normalized b))],
        counter := Suc (counter s)\<rparr>,
      CreateDocument ''comment'' (normalized b) #
        snd (forward_to_google_sheet (store_env g p) (model_dump (normalized b))))"
  by (simp add: post_api_comments_def valid_input_accepted [OF assms(1)]
        create_comment_persisted [OF store_create [OF assms(2)]])

lemma str_nat_1: "str_nat (Suc 0) = ''1''"
  by (simp add: str_nat.simps [of "Suc 0"] digit_char_def)

lemma alice_first:
  "post_api_comments (store_env no_url refused) empty_store alice =
     (\<lparr>status = 200, content = CommentBody
        \<lparr>name = ''Alice'', message = ''See you there!'', attending = Some True,
         guests = Some 2, phone = None, comment_id = Some ''0''\<rparr>\<rparr>,
      alice_once,
      [CreateDocument ''comment'' (normalized alice), Getenv ''GOOGLE_APPS_SCRIPT_URL''])"
proof -
  have f: "snd (forward_to_google_sheet (store_env no_url refused) payload) =
             [Getenv ''GOOGLE_APPS_SCRIPT_URL'']" for payload
    by (simp add: forward_to_google_sheet_def store_env_def no_url_def)
  have e: "fault empty_store = None" by (simp add: empty_store_def)
  show ?thesis
    unfolding store_post [OF alice_valid e]
    by (simp add: f alice_once_def empty_store_def str_nat_0) (simp add: alice_normalized)
qed

lemma alice_second:
  "post_api_comments (store_env no_url refused) alice_once alice =
     (\<lparr>status = 200, content = CommentBody
        \<lparr>name = ''Alice'', message = ''See you there!'', attending = Some True,
         guests = Some 2, phone = None, comment_id = Some ''1''\<rparr>\<rparr>,
      alice_twice,
      [CreateDocument ''comment'' (normalized alice), Getenv ''GOOGLE_APPS_SCRIPT_URL''])"
proof -
  have f: "snd (forward_to_google_sheet (store_env no_url refused) payload) =
             [Getenv ''GOOGLE_APPS_SCRIPT_URL'']" for payload
    by (simp add: forward_to_google_sheet_def store_env_def no_url_def)
  have e: "fault alice_once = None" by (simp add: alice_once_def)
  show ?thesis
    unfolding store_post [OF alice_valid e]
    by (simp add: f alice_once_def alice_twice_def str_nat_1) (simp add: alice_normalized)
qed

section \<open>Creating a comment\<close>




text \<open>
  C2. Whenever the input is accepted and the store persists it, the response of
  \<^verbatim>\<open>POST /api/comments\<close> is the created Comment with the store's id and a success
  status, whatever the forwarding does: \<open>g\<close> is any environment (URL configured or not)
  and \<open>p\<close> any behaviour of the webhook (any status, any fault), and neither occurs in
  the response.
\<close>

theorem forward_outcome_ignored:
  assumes "CommentIn_init b = Inr c"
    and "create_document E db ''comment'' c = (Inr new_id, db')"
  shows "fst (post_api_comments (E\<lparr>getenv := g, requests_post := p\<rparr>) db b) =
           \<lparr>status = 200, content = CommentBody
              \<lparr>name = name c, message = message c, attending = attending c,
               guests = guests c, phone = phone c, comment_id = Some new_id\<rparr>\<rparr>"
proof -
  have "create_document (E\<lparr>getenv := g, requests_post := p\<rparr>) db ''comment'' c = (Inr new_id, db')"
    using assms(2) by simp
  then show ?thesis
    by (simp add: post_api_comments_def assms(1) create_comment_persisted)
qed

theorem forward_outcome_ignored_witness:
  "CommentIn_init alice = Inr (normalized alice) \<and>
   fst (create_document (store_env no_url refused) empty_store ''comment'' (normalized alice)) =
     Inr ''0'' \<and>
   fst (post_api_comments (store_env no_url refused\<lparr>getenv := sheet_url, requests_post := accepted\<rparr>)
          empty_store alice) =
     \<lparr>status = 200, content = CommentBody
        \<lparr>name = ''Alice'', message = ''See you there!'', attending = Some True,
         guests = Some 2, phone = None, comment_id = Some ''0''\<rparr>\<rparr> \<and>
   fst (post_api_comments (store_env no_url refused\<lparr>getenv := sheet_url, requests_post := refused\<rparr>)
          empty_store alice) =
     \<lparr>status = 200, content = CommentBody
        \<lparr>name = ''Alice'', message = ''See you there!'', attending = Some True,
         guests = Some 2, phone = None, comment_id = Some ''0''\<rparr>\<rparr> \<and>
   fst (post_api_comments (store_env no_url refused\<lparr>getenv := no_url, requests_post := accepted\<rparr>)
          empty_store alice) =
     \<lparr>status = 200, content = CommentBody
        \<lparr>name = ''Alice'', message = ''See you there!'', attending = Some True,
         guests = Some 2, phone = None, comment_id = Some ''0''\<rparr>\<rparr>"
  using forward_outcome_ignored [where E = "store_env no_url refused" and g = sheet_url and p = accepted,
      OF alice_accepted alice_stored]
    forward_outcome_ignored [where E = "store_env no_url refused" and g = sheet_url and p = refused,
      OF alice_accepted alice_stored]
    forward_outcome_ignored [where E = "store_env no_url refused" and g = no_url and p = accepted,
      OF alice_accepted alice_stored]
  by (simp add: alice_accepted alice_stored [unfolded alice_normalized] alice_normalized)

section \<open>Rejected input\<close>

text \<open>
  C3. An input whose \<^verbatim>\<open>name\<close> or \<^verbatim>\<open>message\<close> is missing or not a string is answered
  with a client-fault status (4xx); the store is left as it was and no call is made, so
  \<^verbatim>\<open>create_document\<close> is never invoked.
\<close>

theorem missing_name_or_message_rejected:
  assumes "(\<forall>s. map_of b ''name'' \<noteq> Some (VStr s)) \<or> (\<forall>s. map_of b ''message'' \<noteq> Some (VStr s))"
  shows "\<exists>r. post_api_comments E db b = (r, db, []) \<and> 400 \<le> status r \<and> status r < 500"
proof -
  have "\<exists>e. CommentIn_init b = Inl e"
  proof (cases "\<forall>s. map_of b ''name'' \<noteq> Some (VStr s)")
    case True
    then have "str_field ''name'' (map_of b ''name'') = Inl (ValidationError ''name'')"
      by (cases "(''name'', map_of b ''name'')" rule: str_field.cases) auto
    then show ?thesis by (simp add: CommentIn_init_def)
  next
    case False
    then obtain n where n: "map_of b ''name'' = Some (VStr n)" by blast
    from False assms have "\<forall>s. map_of b ''message'' \<noteq> Some (VStr s)" by blast
    then have "str_field ''message'' (map_of b ''message'') = Inl (ValidationError ''message'')"
      by (cases "(''message'', map_of b ''message'')" rule: str_field.cases) auto
    then show ?thesis by (simp add: CommentIn_init_def n)
  qed
  then show ?thesis
    by (auto simp: post_api_comments_def)
qed

theorem missing_name_or_message_rejected_witness:
  "(\<forall>s. map_of no_name ''name'' \<noteq> Some (VStr s)) \<and>
   post_api_comments (store_env sheet_url accepted) empty_store no_name =
     (\<lparr>status = 422, content = Detail ''validation error: name''\<rparr>, empty_store, [])"
  using missing_name_or_message_rejected [of no_name "store_env sheet_url accepted" empty_store]
  by (simp add: no_name_def post_api_comments_def CommentIn_init_def)

section \<open>The forwarder\<close>

text \<open>
  C4. With a URL configured, the forwarder issues exactly one HTTP POST, to that URL, with
  the payload and the timeout 8, and returns a record, never an exception: for a
  response, the record holds \<^verbatim>\<open>forwarded\<close> (true exactly for status 200 or 201), the
  status code and the first 200 characters of the response body; for a transport fault,
  \<^verbatim>\<open>forwarded\<close> false and the first 200 characters of the fault's text.
\<close>

theorem forwarder_posts_once:
  assumes "getenv E ''GOOGLE_APPS_SCRIPT_URL'' = Some url" and "url \<noteq> []"
  shows "\<exists>meta. forward_to_google_sheet E payload =
            (Inr meta, [Getenv ''GOOGLE_APPS_SCRIPT_URL'', HttpPost url payload 8]) \<and>
          (\<forall>resp. requests_post E url payload 8 = Inr resp \<longrightarrow>
             meta = [(''forwarded'', VBool (status_code resp = 200 \<or> status_code resp = 201)),
                     (''status'', VInt (status_code resp)),
                     (''response'', VStr (take 200 (resp_text resp)))] \<and>
             length (take 200 (resp_text resp)) \<le> 200) \<and>
          (\<forall>e. requests_post E url payload 8 = Inl e \<longrightarrow>
             meta = [(''forwarded'', VBool False), (''reason'', VStr (take 200 (str_exn e)))] \<and>
             length (take 200 (str_exn e)) \<le> 200)"
  using assms
  by (cases "requests_post E url payload 8")
     (simp_all add: forward_to_google_sheet_def forward_try_def Let_def)

theorem forwarder_posts_once_witness:
  "getenv (store_env sheet_url accepted) ''GOOGLE_APPS_SCRIPT_URL'' =
     Some ''https://script.example/exec'' \<and>
   ''https://script.example/exec'' \<noteq> [] \<and>
   forward_to_google_sheet (store_env sheet_url accepted) alice =
     (Inr [(''forwarded'', VBool True), (''status'', VInt 201), (''response'', VStr ''ok'')],
      [Getenv ''GOOGLE_APPS_SCRIPT_URL'', HttpPost ''https://script.example/exec'' alice 8]) \<and>
   forward_to_google_sheet (store_env sheet_url refused) alice =
     (Inr [(''forwarded'', VBool False), (''reason'', VStr ''connection refused'')],
      [Getenv ''GOOGLE_APPS_SCRIPT_URL'', HttpPost ''https://script.example/exec'' alice 8])"
  using forwarder_posts_once [of "store_env sheet_url accepted" "''https://script.example/exec''" alice]
    forwarder_posts_once [of "store_env sheet_url refused" "''https://script.example/exec''" alice]
  by (simp add: store_env_def sheet_url_def accepted_def refused_def
        forward_to_google_sheet_def forward_try_def)

text \<open>
  C5. With no URL configured (the variable unset or empty), the forwarder returns at once
  a record saying that nothing was forwarded and why; it is a returned value, not an
  exception, and the only call made is the reading of the environment: no HTTP POST.
\<close>

theorem forwarder_skips_without_url:
  assumes "getenv E ''GOOGLE_APPS_SCRIPT_URL'' = None \<or> getenv E ''GOOGLE_APPS_SCRIPT_URL'' = Some []"
  shows "forward_to_google_sheet E payload =
           (Inr [(''forwarded'', VBool False),
                 (''reason'', VStr ''No GOOGLE_APPS_SCRIPT_URL configured'')],
            [Getenv ''GOOGLE_APPS_SCRIPT_URL''])"
  using assms by (auto simp: forward_to_google_sheet_def)

theorem forwarder_skips_without_url_witness:
  "getenv (store_env no_url accepted) ''GOOGLE_APPS_SCRIPT_URL'' = None \<and>
   forward_to_google_sheet (store_env no_url accepted) alice =
     (Inr [(''forwarded'', VBool False),
           (''reason'', VStr ''No GOOGLE_APPS_SCRIPT_URL configured'')],
      [Getenv ''GOOGLE_APPS_SCRIPT_URL''])"
  using forwarder_skips_without_url [of "store_env no_url accepted" alice]
  by (simp add: store_env_def no_url_def)

section \<open>Store faults\<close>

text \<open>
  C6. A fault of \<^verbatim>\<open>get_documents\<close> inside \<^verbatim>\<open>GET /api/comments\<close> gives status 500 with the
  fault's text as detail; a fault of \<^verbatim>\<open>create_document\<close> inside \<^verbatim>\<open>POST /api/comments\<close>
  gives status 400 with the fault's text as detail.
\<close>

theorem store_fault_statuses:
  "(get_documents E db ''comment'' [] (case limit of None \<Rightarrow> 50 | Some n \<Rightarrow> n) = Inl e \<longrightarrow>
      fst (get_api_comments E db limit) = \<lparr>status = 500, content = Detail (str_exn e)\<rparr>) \<and>
   (CommentIn_init b = Inr c \<and> fst (create_document E db ''comment'' c) = Inl e' \<longrightarrow>
      fst (post_api_comments E db b) = \<lparr>status = 400, content = Detail (str_exn e')\<rparr>)"
proof (intro conjI impI)
  assume "get_documents E db ''comment'' [] (case limit of None \<Rightarrow> 50 | Some n \<Rightarrow> n) = Inl e"
  then show "fst (get_api_comments E db limit) = \<lparr>status = 500, content = Detail (str_exn e)\<rparr>"
    by (simp add: get_api_comments_def list_comments_def)
next
  assume a: "CommentIn_init b = Inr c \<and> fst (create_document E db ''comment'' c) = Inl e'"
  then obtain db' where "create_document E db ''comment'' c = (Inl e', db')"
    by (cases "create_document E db ''comment'' c") auto
  then show "fst (post_api_comments E db b) = \<lparr>status = 400, content = Detail (str_exn e')\<rparr>"
    using a by (simp add: post_api_comments_def create_comment_store_fault)
qed

theorem store_fault_statuses_witness:
  "get_documents (store_env no_url refused) broken_store ''comment'' [] 50 =
     Inl (Fault ''database unavailable'') \<and>
   fst (get_api_comments (store_env no_url refused) broken_store None) =
     \<lparr>status = 500, content = Detail ''database unavailable''\<rparr> \<and>
   CommentIn_init alice = Inr (normalized alice) \<and>
   fst (create_document (store_env no_url refused) broken_store ''comment'' (normalized alice)) =
     Inl (Fault ''database unavailable'') \<and>
   fst (post_api_comments (store_env no_url refused) broken_store alice) =
     \<lparr>status = 400, content = Detail ''database unavailable''\<rparr>"
  using store_fault_statuses [of "store_env no_url refused" broken_store None
      "Fault ''database unavailable''" alice "normalized alice" "Fault ''database unavailable''"]
  by (simp add: broken_get broken_create alice_accepted)

text \<open>
  C10. When \<^verbatim>\<open>create_document\<close> raises for a validated input, the only call of the
  request is that \<^verbatim>\<open>create_document\<close>: the forwarder, whose first act is to read the
  environment, is not invoked, and no HTTP POST is made.
\<close>

theorem no_forward_after_store_fault:
  assumes "create_document E db ''comment'' c = (Inl e, db')"
  shows "snd (snd (create_comment E db c)) = [CreateDocument ''comment'' c] \<and>
         Getenv ''GOOGLE_APPS_SCRIPT_URL'' \<notin> set (snd (snd (create_comment E db c))) \<and>
         (\<forall>url payload timeout. HttpPost url payload timeout \<notin> set (snd (snd (create_comment E db c))))"
  by (simp add: create_comment_store_fault [OF assms])

theorem no_forward_after_store_fault_witness:
  "create_document (store_env sheet_url accepted) broken_store ''comment'' (normalized alice) =
     (Inl (Fault ''database unavailable''), broken_store) \<and>
   snd (snd (create_comment (store_env sheet_url accepted) broken_store (normalized alice))) =
     [CreateDocument ''comment'' (normalized alice)]"
  using no_forward_after_store_fault [OF broken_create, of sheet_url accepted "normalized alice"]
  by (simp add: broken_create)

section \<open>Listing comments\<close>

text \<open>
  C7. \<^verbatim>\<open>GET /api/comments\<close> asks the store for the documents of the collection
  \<^verbatim>\<open>"comment"\<close> with the empty filter and the limit of the query, 50 when the parameter is
  absent. When the store answers with documents whose comment fields have the types of
  the output shape, the response lists one Comment per document, in the store's order:
  its id is \<^verbatim>\<open>str\<close> of the stored \<^verbatim>\<open>_id\<close>, a missing name or message is the empty string,
  and a missing attending, guests or phone is null.
\<close>

theorem list_comments_maps_documents:
  assumes "get_documents E db ''comment'' [] (case limit of None \<Rightarrow> 50 | Some n \<Rightarrow> n) = Inr docs"
    and "\<forall>d \<in> set docs. well_typed_doc d"
  shows "\<exists>rs. get_api_comments E db limit =
            (\<lparr>status = 200, content = CommentList rs\<rparr>,
             [GetDocuments ''comment'' [] (case limit of None \<Rightarrow> 50 | Some n \<Rightarrow> n)]) \<and>
          length rs = length docs \<and>
          (\<forall>k < length docs.
             comment_id (rs ! k) = Some (py_str (dict_get (docs ! k) ''_id'' VNone)) \<and>
             VStr (name (rs ! k)) = dict_get (docs ! k) ''name'' (VStr '''') \<and>
             VStr (message (rs ! k)) = dict_get (docs ! k) ''message'' (VStr '''') \<and>
             opt_val VBool (attending (rs ! k)) = dict_get (docs ! k) ''attending'' VNone \<and>
             opt_val VInt (guests (rs ! k)) = dict_get (docs ! k) ''guests'' VNone \<and>
             opt_val VStr (phone (rs ! k)) = dict_get (docs ! k) ''phone'' VNone)"
proof -
  let ?rs = "map (projr \<circ> comment_of_doc) docs"
  have "get_api_comments E db limit =
          (\<lparr>status = 200, content = CommentList ?rs\<rparr>,
           [GetDocuments ''comment'' [] (case limit of None \<Rightarrow> 50 | Some n \<Rightarrow> n)])"
    by (simp add: get_api_comments_def list_comments_def assms(1)
          append_comments_well_typed [OF assms(2)])
  moreover have "length ?rs = length docs" by simp
  moreover have "comment_id (?rs ! k) = Some (py_str (dict_get (docs ! k) ''_id'' VNone)) \<and>
             VStr (name (?rs ! k)) = dict_get (docs ! k) ''name'' (VStr '''') \<and>
             VStr (message (?rs ! k)) = dict_get (docs ! k) ''message'' (VStr '''') \<and>
             opt_val VBool (attending (?rs ! k)) = dict_get (docs ! k) ''attending'' VNone \<and>
             opt_val VInt (guests (?rs ! k)) = dict_get (docs ! k) ''guests'' VNone \<and>
             opt_val VStr (phone (?rs ! k)) = dict_get (docs ! k) ''phone'' VNone"
    if "k < length docs" for k
  proof -
    from that assms(2) have "well_typed_doc (docs ! k)" by simp
    from comment_of_doc_well_typed [OF this] that show ?thesis by auto
  qed
  ultimately show ?thesis by blast
qed

theorem list_comments_maps_documents_witness:
  "get_documents (store_env no_url refused) filled_store ''comment'' [] 50 = Inr stored_docs \<and>
   list_all well_typed_doc stored_docs \<and>
   get_api_comments (store_env no_url refused) filled_store None =
     (\<lparr>status = 200, content = CommentList
        [\<lparr>name = ''Alice'', message = ''hi'', attending = Some True, guests = Some 2,
          phone = None, comment_id = Some ''65f0a1''\<rparr>,
         \<lparr>name = '''', message = '''', attending = None, guests = None,
          phone = None, comment_id = Some ''65f0a2''\<rparr>]\<rparr>,
      [GetDocuments ''comment'' [] 50])"
  using list_comments_maps_documents [where limit = None and docs = stored_docs
      and db = filled_store and E = "store_env no_url refused",
      OF _ stored_docs_well_typed]
  by (simp add: filled_store_get get_api_comments_def list_comments_def)
     (simp add: stored_docs_def well_typed_doc_def comment_of_doc_def CommentOut_init_def
        CommentIn_init_def dict_get_def)

section \<open>Repeated submissions\<close>

text \<open>
  C8. On the document store, posting the same valid payload twice gives two success
  responses that carry two distinct ids, and the store holds two more documents, one per
  submission: \<^verbatim>\<open>create_document\<close> is called for each request and nothing is deduplicated.
\<close>

theorem repeated_submission_creates_two_comments:
  assumes "valid_comment_input b" and "fault s = None"
    and "post_api_comments (store_env g p) s b = (r1, s1, ev1)"
    and "post_api_comments (store_env g' p') s1 b = (r2, s2, ev2)"
  shows "\<exists>i1 i2. i1 \<noteq> i2 \<and>
           r1 = \<lparr>status = 200, content = CommentBody
                  \<lparr>name = name (normalized b), message = message (normalized b),
                   attending = attending (normalized b), guests = guests (normalized b),
                   phone = phone (normalized b), comment_id = Some i1\<rparr>\<rparr> \<and>
           r2 = \<lparr>status = 200, content = CommentBody
                  \<lparr>name = name (normalized b), message = message (normalized b),
                   attending = attending (normalized b), guests = guests (normalized b),
                   phone = phone (normalized b), comment_id = Some i2\<rparr>\<rparr> \<and>
           documents s2 = documents s @
             [(''comment'', (''_id'', VObjectId i1) # model_dump (normalized b)),
              (''comment'', (''_id'', VObjectId i2) # model_dump (normalized b))] \<and>
           hd ev1 = CreateDocument ''comment'' (normalized b) \<and>
           hd ev2 = CreateDocument ''comment'' (normalized b)"
proof -
  from assms(3) store_post [OF assms(1,2), of g p]
  have r1: "r1 = \<lparr>status = 200, content = CommentBody
                  \<lparr>name = name (normalized b), message = message (normalized b),
                   attending = attending (normalized b), guests = guests (normalized b),
                   phone = phone (normalized b), comment_id = Some (str_nat (counter s))\<rparr>\<rparr>"
    and s1: "s1 = s\<lparr>documents := documents s @
           [(''comment'', (''_id'', VObjectId (str_nat (counter s))) # model_dump (normalized b))],
        counter := Suc (counter s)\<rparr>"
    and e1: "hd ev1 = CreateDocument ''comment'' (normalized b)"
    by auto
  have ok: "fault s1 = None" and c1: "counter s1 = Suc (counter s)"
    using assms(2) s1 by simp_all
  from assms(4) store_post [OF assms(1) ok, of g' p']
  have r2: "r2 = \<lparr>status = 200, content = CommentBody
                  \<lparr>name = name (normalized b), message = message (normalized b),
                   attending = attending (normalized b), guests = guests (normalized b),
                   phone = phone (normalized b), comment_id = Some (str_nat (Suc (counter s)))\<rparr>\<rparr>"
    and s2: "documents s2 = documents s1 @
           [(''comment'', (''_id'', VObjectId (str_nat (Suc (counter s)))) # model_dump (normalized b))]"
    and e2: "hd ev2 = CreateDocument ''comment'' (normalized b)"
    by (auto simp: c1)
  have "str_nat (counter s) \<noteq> str_nat (Suc (counter s))"
    using str_nat_inj [of "counter s" "Suc (counter s)"] by auto
  moreover have "documents s2 = documents s @
             [(''comment'', (''_id'', VObjectId (str_nat (counter s))) # model_dump (normalized b)),
              (''comment'', (''_id'', VObjectId (str_nat (Suc (counter s)))) # model_dump (normalized b))]"
    using s2 s1 by simp
  ultimately show ?thesis
    using r1 r2 e1 e2 by blast
qed

theorem repeated_submission_creates_two_comments_witness:
  "valid_comment_input alice \<and> fault empty_store = None \<and>
   post_api_comments (store_env no_url refused) empty_store alice =
     (\<lparr>status = 200, content = CommentBody
        \<lparr>name = ''Alice'', message = ''See you there!'', attending = Some True,
         guests = Some 2, phone = None, comment_id = Some ''0''\<rparr>\<rparr>,
      alice_once,
      [CreateDocument ''comment'' (normalized alice), Getenv ''GOOGLE_APPS_SCRIPT_URL'']) \<and>
   post_api_comments (store_env no_url refused) alice_once alice =
     (\<lparr>status = 200, content = CommentBody
        \<lparr>name = ''Alice'', message = ''See you there!'', attending = Some True,
         guests = Some 2, phone = None, comment_id = Some ''1''\<rparr>\<rparr>,
      alice_twice,
      [CreateDocument ''comment'' (normalized alice), Getenv ''GOOGLE_APPS_SCRIPT_URL'']) \<and>
   ''0'' \<noteq> ''1'' \<and>
   documents alice_twice = documents empty_store @
     [(''comment'', (''_id'', VObjectId ''0'') # model_dump (normalized alice)),
      (''comment'', (''_id'', VObjectId ''1'') # model_dump (normalized alice))]"
proof -
  have e: "fault empty_store = None" by (simp add: empty_store_def)
  from repeated_submission_creates_two_comments [OF alice_valid e alice_first alice_second]
  have "documents alice_twice = documents empty_store @
     [(''comment'', (''_id'', VObjectId ''0'') # model_dump (normalized alice)),
      (''comment'', (''_id'', VObjectId ''1'') # model_dump (normalized alice))]"
    by auto
  then show ?thesis
    using alice_valid e alice_first alice_second by simp
qed

end
